theory Spec2Isabelle
  imports Main
begin

section \<open>Errors and rows\<close>

text \<open>
  The controllers throw framework exceptions; here every throw is a value of \<open>error\<close>.
  \<open>ExtendedBadRequest\<close> carries its field/message object as an association list.
  \<open>TypeError\<close> is the runtime error of reading a property of \<open>null\<close>.
\<close>

datatype error =
    NotFound string
  | BadRequest string
  | Forbidden string
  | Unauthorized string
  | ExtendedBadRequest "(string \<times> string) list"
  | TypeError

record user =
  user_id :: string
  rank :: string
  permissions :: "string list"
  isLeo :: bool
  isDispatch :: bool
  isEmsFd :: bool

record citizen =
  citizen_id :: string
  citizen_userId :: "string option"
  name :: string
  surname :: string

text \<open>A row of the \<open>Value\<close> table; the column \<open>value\<close> is the field \<open>value_value\<close>.\<close>

record value_row =
  value_id :: string
  value_value :: string
  value_type :: string
  isDefault :: bool

record weaponValue =
  weaponValue_id :: string
  valueId :: string

record weapon =
  weapon_id :: string
  weapon_citizenId :: string
  weapon_userId :: "string option"
  serialNumber :: string
  modelId :: string
  registrationStatusId :: string
  weapon_createdAt :: int

datatype whitelist_status = ACCEPTED | PENDING | DECLINED

record nameChangeRequest =
  request_id :: string
  request_citizenId :: string
  request_userId :: "string option"
  newName :: string
  newSurname :: string
  request_status :: whitelist_status
  request_createdAt :: int

text \<open>
  The database the controllers reach through \<open>prisma\<close>: one list of rows per table, in
  the order \<open>findFirst\<close> scans them, and the clock that stamps \<open>createdAt\<close>.
\<close>

record db =
  citizens :: "citizen list"
  weapons :: "weapon list"
  weaponValues :: "weaponValue list"
  value_rows :: "value_row list"
  nameChangeRequests :: "nameChangeRequest list"
  now :: int

text \<open>The validated bodies of \<open>WEAPON_SCHEMA\<close> and \<open>NAME_CHANGE_REQUEST_SCHEMA\<close>.
  An optional field is \<open>None\<close> when it is \<open>null\<close> or \<open>undefined\<close>.\<close>

record weapon_data =
  data_citizenId :: string
  data_model :: string
  data_registrationStatus :: string
  data_serialNumber :: "string option"

record name_change_data =
  nc_citizenId :: string
  nc_newName :: string
  nc_newSurname :: string

text \<open>
  What the controllers import and this repository's sources do not show is a parameter:
  the schema validators (they return the validated body or the error they throw),
  \<open>shouldCheckCitizenUserId\<close>, \<open>canManageInvariant\<close> (\<open>True\<close> when it returns, \<open>False\<close>
  when it throws the error it was handed), \<open>isFeatureEnabled\<close> for
  \<open>CUSTOM_TEXTFIELD_VALUES\<close>, \<open>generateString\<close> and the database's default for a new
  row's id, both reading and advancing a source of randomness \<open>'r\<close>, and the column
  default of a name-change request's status.
\<close>

record ('b, 'c, 'r) lib =
  validateWeapon :: "'b \<Rightarrow> error + weapon_data"
  validateNameChange :: "'b \<Rightarrow> error + name_change_data"
  shouldCheckCitizenUserId :: "'c \<Rightarrow> user \<Rightarrow> bool"
  canManageInvariant :: "string option \<Rightarrow> user \<Rightarrow> bool"
  isFeatureEnabled :: "'c \<Rightarrow> bool"
  generateString :: "nat \<Rightarrow> 'r \<Rightarrow> string \<times> 'r"
  cuid :: "'r \<Rightarrow> string \<times> 'r"
  defaultStatus :: whitelist_status

section \<open>String filters of the ORM\<close>

definition to_lower :: "char \<Rightarrow> char" where
  "to_lower c =
     (case map_of (zip ''ABCDEFGHIJKLMNOPQRSTUVWXYZ'' ''abcdefghijklmnopqrstuvwxyz'') c of
        None \<Rightarrow> c
      | Some l \<Rightarrow> l)"

text \<open>\<open>{ equals: s, mode: "insensitive" }\<close>: equality up to the case of letters.\<close>

definition insensitive_equals :: "string \<Rightarrow> string \<Rightarrow> bool" where
  "insensitive_equals a b = (map to_lower a = map to_lower b)"




section \<open>WeaponController\<close>


definition SERIAL_NUMBER_LENGTH :: nat where
  "SERIAL_NUMBER_LENGTH = 10"

text \<open>JavaScript truthiness of an optional string: present and not empty.\<close>

definition truthy :: "string option \<Rightarrow> bool" where
  "truthy s = (case s of None \<Rightarrow> False | Some v \<Rightarrow> v \<noteq> [])"


text \<open>
  The \<open>where\<close> clause of \<open>generateOrValidateSerialNumber\<close>: the serial number equals,
  insensitively, and the row is not the weapon handed in (when one is).
\<close>

definition serial_where :: "string \<Rightarrow> string option \<Rightarrow> weapon \<Rightarrow> bool" where
  "serial_where s except w =
     (insensitive_equals (serialNumber w) s \<and>
      (case except of None \<Rightarrow> True | Some i \<Rightarrow> weapon_id w \<noteq> i))"

text \<open>
  The function calls itself again when a generated serial number is taken, so it need
  not return: \<open>None\<close> is the call that never returns. The second argument is the
  \<open>Weapon\<close> table, the fourth the id of the optional \<open>weapon\<close> argument.
\<close>

partial_function (option) generateOrValidateSerialNumber ::
  "('b, 'c, 'r) lib \<Rightarrow> weapon list \<Rightarrow> string option \<Rightarrow> string option \<Rightarrow> 'r
     \<Rightarrow> ((error + string) \<times> 'r) option"
where
  "generateOrValidateSerialNumber L ws serialNumber_arg except r =
     (case (case serialNumber_arg of
              None \<Rightarrow> generateString L SERIAL_NUMBER_LENGTH r
            | Some s \<Rightarrow> (s, r)) of
        (sn, r') \<Rightarrow>
          (case find (serial_where sn except) ws of
             None \<Rightarrow> Some (Inr sn, r')
           | Some existing \<Rightarrow>
               if truthy serialNumber_arg
               then Some (Inl (ExtendedBadRequest [(''serialNumber'', ''serialNumberInUse'')]), r')
               else generateOrValidateSerialNumber L ws serialNumber_arg except r'))"

declare generateOrValidateSerialNumber.simps [code]











section \<open>NameChangeRequestController\<close>

definition getUserRequests :: "user \<Rightarrow> db \<Rightarrow> nameChangeRequest list" where
  "getUserRequests u d =
     sort_key (\<lambda>q. - request_createdAt q)
       (filter (\<lambda>q. request_userId q = Some (user_id u)) (nameChangeRequests d))"

text \<open>The template \<open>`${name} ${surname}`\<close>.\<close>

definition fullname :: "string \<Rightarrow> string \<Rightarrow> string" where
  "fullname n s = n @ '' '' @ s"

text \<open>The \<open>where\<close> clause of the query for a request already pending.\<close>

definition pending_where :: "string \<Rightarrow> string \<Rightarrow> nameChangeRequest \<Rightarrow> bool" where
  "pending_where citizenId uid q =
     (request_citizenId q = citizenId \<and> request_userId q = Some uid \<and> request_status q = PENDING)"

definition requestNameChange ::
  "('b, 'c, 'r) lib \<Rightarrow> 'b \<Rightarrow> user \<Rightarrow> db \<Rightarrow> 'r \<Rightarrow> (error + nameChangeRequest) \<times> db \<times> 'r" where
  "requestNameChange L body u d r =
     (case validateNameChange L body of
        Inl e \<Rightarrow> (Inl e, d, r)
      | Inr data \<Rightarrow>
         (case find (\<lambda>c. citizen_id c = nc_citizenId data \<and> citizen_userId c = Some (user_id u))
                 (citizens d) of
            None \<Rightarrow> (Inl (NotFound ''citizenNotFound''), d, r)
          | Some citizen \<Rightarrow>
             if fullname (name citizen) (surname citizen)
                  = fullname (nc_newName data) (nc_newSurname data)
             then (Inl (ExtendedBadRequest [(''citizenId'', ''nameChangeRequestNotNew'')]), d, r)
             else
               (case find (pending_where (nc_citizenId data) (user_id u)) (nameChangeRequests d) of
                  Some existing \<Rightarrow>
                    (Inl (ExtendedBadRequest [(''citizenId'', ''alreadyPendingNameChange'')]), d, r)
                | None \<Rightarrow>
                   (case cuid L r of (rid, r1) \<Rightarrow>
                     (let request = \<lparr>request_id = rid,
                                     request_citizenId = nc_citizenId data,
                                     request_userId = Some (user_id u),
                                     newName = nc_newName data,
                                     newSurname = nc_newSurname data,
                                     request_status = defaultStatus L,
                                     request_createdAt = now d\<rparr>
                      in (Inr request,
                          d\<lparr>nameChangeRequests := nameChangeRequests d @ [request]\<rparr>, r1))))))"

section \<open>getActiveOfficer\<close>

record statusValue =
  status_id :: string
  shouldDo :: string

record officer =
  officer_id :: string
  officer_userId :: "string option"
  officer_status :: "statusValue option"
  lastStatusChangeTimestamp :: "int option"

record combinedLeoUnit =
  unit_id :: string
  unit_status :: "statusValue option"
  officers :: "officer list"

text \<open>The tables \<open>getActiveOfficer\<close> queries; \<open>'c\<close> is a row of \<open>cad\<close> with its settings.\<close>

record 'c unit_db =
  combinedLeoUnits :: "combinedLeoUnit list"
  officer_rows :: "officer list"
  cad_rows :: "'c list"

text \<open>A header of the request is one string or several; \<open>toString\<close> joins several
  with commas.\<close>

datatype header = Single string | Multiple "string list"

fun join_commas :: "string list \<Rightarrow> string" where
  "join_commas [] = []"
| "join_commas [x] = x"
| "join_commas (x # y # ys) = x @ '','' @ join_commas (y # ys)"

fun header_toString :: "header \<Rightarrow> string" where
  "header_toString (Single s) = s"
| "header_toString (Multiple xs) = join_commas xs"

datatype active_unit = CombinedUnit combinedLeoUnit | Officer officer

text \<open>The queries a call sends to the database, in the order it sends them.\<close>

datatype query = CombinedLeoUnit_findFirst | Cad_findFirst | Officer_findFirst

text \<open>
  \<open>hasPermission\<close>, the permission lists it is asked about and \<open>getInactivityFilter\<close>
  are imported: parameters. \<open>getInactivityFilter\<close> is handed the \<open>cad\<close> row the query
  found (or none) and gives the cutoff of its filter, or none.
\<close>

record ('c, 'p) auth_lib =
  hasPermission :: "user \<Rightarrow> 'p list \<Rightarrow> (user \<Rightarrow> bool) \<Rightarrow> bool"
  Permissions_Dispatch :: 'p
  defaultLeoPermissions :: "'p list"
  getInactivityFilter :: "'c option \<Rightarrow> int option"

text \<open>\<open>NOT: { status: { shouldDo: "SET_OFF_DUTY" } }\<close> and
  \<open>officers: { some: { userId } }\<close>.\<close>

definition off_duty :: "statusValue option \<Rightarrow> bool" where
  "off_duty s = (case s of None \<Rightarrow> False | Some v \<Rightarrow> shouldDo v = ''SET_OFF_DUTY'')"

definition combinedUnit_where :: "user \<Rightarrow> combinedLeoUnit \<Rightarrow> bool" where
  "combinedUnit_where u cu =
     (\<not> off_duty (unit_status cu) \<and>
      list_ex (\<lambda>x. officer_userId x = Some (user_id u)) (officers cu))"

text \<open>The list \<open>filters\<close>: off duty, no status, and the inactivity filter pushed when
  there is one. A record without a timestamp is not at or before any cutoff.\<close>

definition officer_filters :: "int option \<Rightarrow> (officer \<Rightarrow> bool) list" where
  "officer_filters unitsInactivityFilter =
     [\<lambda>x. off_duty (officer_status x), \<lambda>x. officer_status x = None] @
     (case unitsInactivityFilter of
        None \<Rightarrow> []
      | Some cutoff \<Rightarrow>
          [\<lambda>x. case lastStatusChangeTimestamp x of None \<Rightarrow> False | Some t \<Rightarrow> t \<le> cutoff])"

definition officer_where :: "user \<Rightarrow> (officer \<Rightarrow> bool) list \<Rightarrow> officer \<Rightarrow> bool" where
  "officer_where u filters x =
     (officer_userId x = Some (user_id u) \<and> \<not> list_ex (\<lambda>f. f x) filters)"

text \<open>\<open>prisma.cad.findFirst\<close>: the first row of \<open>cad\<close>, or none.\<close>

definition cad_findFirst :: "'c unit_db \<Rightarrow> 'c option" where
  "cad_findFirst d = (case cad_rows d of [] \<Rightarrow> None | c # cs \<Rightarrow> Some c)"

text \<open>
  The call returns its result (\<open>None\<close> for \<open>null\<close>), the keys left in \<open>ctx\<close> and the
  queries it sent.
\<close>

definition getActiveOfficer ::
  "('c, 'p) auth_lib \<Rightarrow> 'c unit_db \<Rightarrow> (string \<Rightarrow> header option) \<Rightarrow> user \<Rightarrow> string set
     \<Rightarrow> (error + active_unit option) \<times> string set \<times> query list" where
  "getActiveOfficer A d headers u ctx =
     (if map_option header_toString (headers ''is-from-dispatch'') = Some ''true''
      then (if \<not> hasPermission A u [Permissions_Dispatch A] isDispatch
            then (Inl (Unauthorized ''Must be dispatch to use this header.''), ctx, [])
            else (Inr None, ctx, []))
      else if \<not> hasPermission A u (defaultLeoPermissions A) isLeo
      then (Inl (Forbidden ''Invalid Permissions''), ctx, [])
      else
        (let combinedUnit = find (combinedUnit_where u) (combinedLeoUnits d);
             cad = cad_findFirst d;
             unitsInactivityFilter = getInactivityFilter A cad;
             filters = officer_filters unitsInactivityFilter;
             officer = find (officer_where u filters) (officer_rows d);
             sent = [CombinedLeoUnit_findFirst, Cad_findFirst, Officer_findFirst]
         in case combinedUnit of
              Some cu \<Rightarrow> (Inr (Some (CombinedUnit cu)), ctx, sent)
            | None \<Rightarrow>
               (case officer of
                  Some off \<Rightarrow> (Inr (Some (Officer off)), ctx, sent)
                | None \<Rightarrow> (Inl (BadRequest ''noActiveOfficer''), ctx - {''activeOfficer''}, sent))))"

section \<open>Notions used to state the properties\<close>

text \<open>
  The state of the randomness after \<open>n\<close> calls of \<open>generateString\<close> with the serial
  number length, and the string the next call generates: the \<open>n\<close>-th candidate.
\<close>

fun rng_after :: "('b, 'c, 'r) lib \<Rightarrow> 'r \<Rightarrow> nat \<Rightarrow> 'r" where
  "rng_after L r 0 = r"
| "rng_after L r (Suc n) = rng_after L (snd (generateString L SERIAL_NUMBER_LENGTH r)) n"

definition candidate :: "('b, 'c, 'r) lib \<Rightarrow> 'r \<Rightarrow> nat \<Rightarrow> string" where
  "candidate L r n = fst (generateString L SERIAL_NUMBER_LENGTH (rng_after L r n))"

text \<open>A serial number is taken when the query of \<open>generateOrValidateSerialNumber\<close>
  finds a row for it.\<close>

definition taken :: "weapon list \<Rightarrow> string option \<Rightarrow> string \<Rightarrow> bool" where
  "taken ws except s = list_ex (serial_where s except) ws"

text \<open>
  No two weapons have insensitively equal serial numbers: the serial numbers, with the
  case of letters folded, are pairwise distinct along the table (see
  \<open>serials_unique_iff\<close>).
\<close>

definition serial_key :: "weapon \<Rightarrow> string" where
  "serial_key w = map to_lower (serialNumber w)"

definition serials_unique :: "weapon list \<Rightarrow> bool" where
  "serials_unique ws = distinct (map serial_key ws)"



definition not_new :: error where
  "not_new = ExtendedBadRequest [(''citizenId'', ''nameChangeRequestNotNew'')]"

definition already_pending :: error where
  "already_pending = ExtendedBadRequest [(''citizenId'', ''alreadyPendingNameChange'')]"

text \<open>
  At most one request with status \<open>PENDING\<close> per citizen, and the weaker invariant per
  citizen and requesting user.
\<close>

definition one_pending_per_citizen :: "nameChangeRequest list \<Rightarrow> bool" where
  "one_pending_per_citizen rs =
     distinct (map request_citizenId (filter (\<lambda>q. request_status q = PENDING) rs))"

definition one_pending_per_citizen_and_user :: "nameChangeRequest list \<Rightarrow> bool" where
  "one_pending_per_citizen_and_user rs =
     distinct (map (\<lambda>q. (request_citizenId q, request_userId q))
                 (filter (\<lambda>q. request_status q = PENDING) rs))"


section \<open>Sample data\<close>

text \<open>
  A permission library in which a user has a permission when it is listed among the
  user's permissions or the fallback flag grants it, and a \<open>cad\<close> row that is its own
  inactivity cutoff.
\<close>

definition demo_auth :: "(int option, string) auth_lib" where
  "demo_auth =
     \<lparr>hasPermission = (\<lambda>u ps fallback. list_ex (\<lambda>p. p \<in> set (permissions u)) ps \<or> fallback u),
      Permissions_Dispatch = ''Dispatch'',
      defaultLeoPermissions = [''Leo'', ''ViewIncidents''],
      getInactivityFilter = (\<lambda>c. Option.bind c id)\<rparr>"

definition on_duty :: statusValue where
  "on_duty = \<lparr>status_id = ''s1'', shouldDo = ''SET_ON_DUTY''\<rparr>"

definition officer_a :: officer where
  "officer_a = \<lparr>officer_id = ''o1'', officer_userId = Some ''u1'',
                 officer_status = Some on_duty, lastStatusChangeTimestamp = Some 500\<rparr>"

definition unit_a :: combinedLeoUnit where
  "unit_a = \<lparr>unit_id = ''c1'', unit_status = Some on_duty, officers = [officer_a]\<rparr>"

definition demo_units :: "int option unit_db" where
  "demo_units = \<lparr>combinedLeoUnits = [unit_a], officer_rows = [officer_a], cad_rows = [Some 100]\<rparr>"

definition solo_units :: "int option unit_db" where
  "solo_units = \<lparr>combinedLeoUnits = [], officer_rows = [officer_a], cad_rows = [Some 100]\<rparr>"

definition leo_user :: user where
  "leo_user = \<lparr>user_id = ''u1'', rank = ''USER'', permissions = [''Leo''],
               isLeo = False, isDispatch = False, isEmsFd = False\<rparr>"

definition dispatch_user :: user where
  "dispatch_user = \<lparr>user_id = ''u1'', rank = ''USER'', permissions = [''Dispatch''],
               isLeo = False, isDispatch = False, isEmsFd = False\<rparr>"

definition plain_user :: user where
  "plain_user = \<lparr>user_id = ''u1'', rank = ''USER'', permissions = [],
               isLeo = False, isDispatch = False, isEmsFd = False\<rparr>"

definition from_dispatch :: "string \<Rightarrow> header option" where
  "from_dispatch h = (if h = ''is-from-dispatch'' then Some (Single ''true'') else None)"

definition no_headers :: "string \<Rightarrow> header option" where
  "no_headers h = None"

text \<open>
  A library for the weapon and name-change handlers: bodies that are already of the
  schema's shape, an owner check by user id (the rank \<open>OWNER\<close> may manage everything),
  a \<open>cad\<close> that is the custom-text-field switch, and randomness read off a tape of
  characters.
\<close>

datatype body = WeaponBody weapon_data | NameChangeBody name_change_data | Malformed

definition demo_lib :: "(body, bool, string) lib" where
  "demo_lib =
     \<lparr>validateWeapon = (\<lambda>b. case b of WeaponBody w \<Rightarrow> Inr w | _ \<Rightarrow> Inl (BadRequest ''invalid'')),
      validateNameChange =
        (\<lambda>b. case b of NameChangeBody n \<Rightarrow> Inr n | _ \<Rightarrow> Inl (BadRequest ''invalid'')),
      shouldCheckCitizenUserId = (\<lambda>cad u. True),
      canManageInvariant = (\<lambda>owner u. rank u = ''OWNER'' \<or> owner = Some (user_id u)),
      isFeatureEnabled = (\<lambda>cad. cad),
      generateString = (\<lambda>n r. (replicate n (case r of [] \<Rightarrow> CHR ''Z'' | c # cs \<Rightarrow> c), tl r)),
      cuid = (\<lambda>r. (''id-'' @ take 1 r, tl r)),
      defaultStatus = PENDING\<rparr>"

definition pistol :: weapon where
  "pistol = \<lparr>weapon_id = ''w1'', weapon_citizenId = ''c1'', weapon_userId = Some ''u1'',
             serialNumber = ''aaaaaaaaaa'', modelId = ''m1'', registrationStatusId = ''v2'',
             weapon_createdAt = 10\<rparr>"

definition rifle :: weapon where
  "rifle = \<lparr>weapon_id = ''w2'', weapon_citizenId = ''c1'', weapon_userId = Some ''u1'',
            serialNumber = ''Rifle-7'', modelId = ''m1'', registrationStatusId = ''v2'',
            weapon_createdAt = 20\<rparr>"

definition john :: citizen where
  "john = \<lparr>citizen_id = ''c1'', citizen_userId = Some ''u1'', name = ''John'', surname = ''Doe''\<rparr>"

definition demo_db :: db where
  "demo_db =
     \<lparr>citizens = [john],
      weapons = [pistol, rifle],
      weaponValues = [\<lparr>weaponValue_id = ''m1'', valueId = ''v1''\<rparr>],
      value_rows = [\<lparr>value_id = ''v1'', value_value = ''Glock'', value_type = ''WEAPON'', isDefault = True\<rparr>,
                    \<lparr>value_id = ''v2'', value_value = ''Valid'', value_type = ''LICENSE'', isDefault = True\<rparr>],
      nameChangeRequests = [],
      now = 100\<rparr>"

definition owner_user :: user where
  "owner_user = \<lparr>user_id = ''u1'', rank = ''USER'', permissions = [],
               isLeo = False, isDispatch = False, isEmsFd = False\<rparr>"





definition rename :: "string \<Rightarrow> string \<Rightarrow> body" where
  "rename n s = NameChangeBody \<lparr>nc_citizenId = ''c1'', nc_newName = n, nc_newSurname = s\<rparr>"

text \<open>A request already pending for citizen \<open>c1\<close>, made under the given user id.\<close>

definition earlier_request :: "string option \<Rightarrow> nameChangeRequest" where
  "earlier_request uid =
     \<lparr>request_id = ''r1'', request_citizenId = ''c1'', request_userId = uid,
      newName = ''Jack'', newSurname = ''Doe'', request_status = PENDING,
      request_createdAt = 50\<rparr>"

definition db_with_request :: "string option \<Rightarrow> db" where
  "db_with_request uid = demo_db\<lparr>nameChangeRequests := [earlier_request uid]\<rparr>"

section \<open>Lemmas on the queries and the handlers\<close>

lemma find_None_taken: "(find (serial_where s except) ws = None) = (\<not> taken ws except s)"
  by (auto simp: taken_def find_None_iff list_ex_iff)

lemma rng_after_Suc: "rng_after L r (Suc n) = snd (generateString L SERIAL_NUMBER_LENGTH (rng_after L r n))"
  by (induction n arbitrary: r) simp_all





lemma gov_step_free:
  "\<not> taken ws except (fst (generateString L SERIAL_NUMBER_LENGTH r)) \<Longrightarrow>
   generateOrValidateSerialNumber L ws None except r
     = Some (Inr (fst (generateString L SERIAL_NUMBER_LENGTH r)),
             snd (generateString L SERIAL_NUMBER_LENGTH r))"
  by (subst generateOrValidateSerialNumber.simps)
     (simp add: find_None_taken [symmetric] split_beta)

lemma gov_step_taken:
  "taken ws except (fst (generateString L SERIAL_NUMBER_LENGTH r)) \<Longrightarrow>
   generateOrValidateSerialNumber L ws None except r
     = generateOrValidateSerialNumber L ws None except (snd (generateString L SERIAL_NUMBER_LENGTH r))"
proof -
  assume "taken ws except (fst (generateString L SERIAL_NUMBER_LENGTH r))"
  then obtain w where
    "find (serial_where (fst (generateString L SERIAL_NUMBER_LENGTH r)) except) ws = Some w"
    by (cases "find (serial_where (fst (generateString L SERIAL_NUMBER_LENGTH r)) except) ws")
       (simp_all add: find_None_taken)
  then show ?thesis
    by (subst generateOrValidateSerialNumber.simps) (simp add: split_beta truthy_def)
qed

lemma candidate_0: "candidate L r 0 = fst (generateString L SERIAL_NUMBER_LENGTH r)"
  by (simp add: candidate_def)

lemma candidate_Suc:
  "candidate L r (Suc k) = candidate L (snd (generateString L SERIAL_NUMBER_LENGTH r)) k"
  by (simp add: candidate_def)

lemma gov_generated_returns:
  "\<not> taken ws except (candidate L r n) \<Longrightarrow> \<forall>m<n. taken ws except (candidate L r m) \<Longrightarrow>
   generateOrValidateSerialNumber L ws None except r
     = Some (Inr (candidate L r n), rng_after L r (Suc n))"
proof (induction n arbitrary: r)
  case 0
  then show ?case
    by (simp add: candidate_0 gov_step_free)
next
  case (Suc n)
  let ?r1 = "snd (generateString L SERIAL_NUMBER_LENGTH r)"
  from Suc.prems have t0: "taken ws except (fst (generateString L SERIAL_NUMBER_LENGTH r))"
    by (auto simp: candidate_0 [symmetric])
  from Suc.prems have "\<not> taken ws except (candidate L ?r1 n)"
     "\<forall>m<n. taken ws except (candidate L ?r1 m)"
    by (auto simp: candidate_Suc [symmetric])
  then have "generateOrValidateSerialNumber L ws None except ?r1
     = Some (Inr (candidate L ?r1 n), rng_after L ?r1 (Suc n))"
    by (rule Suc.IH)
  with t0 show ?case
    by (simp add: gov_step_taken candidate_Suc)
qed

lemma gov_generated_first:
  assumes "generateOrValidateSerialNumber L ws None except r = Some out"
  shows "\<exists>n. \<not> taken ws except (candidate L r n) \<and> (\<forall>m<n. taken ws except (candidate L r m))
      \<and> out = (Inr (candidate L r n), rng_after L r (Suc n))"
proof -
  have "(None :: string option) = None \<longrightarrow> (\<exists>n. \<not> taken ws except (candidate L r n) \<and> (\<forall>m<n. taken ws except (candidate L r m))
      \<and> out = (Inr (candidate L r n), rng_after L r (Suc n)))"
  proof (rule generateOrValidateSerialNumber.raw_induct
    [where P = "\<lambda>L ws arg except r out. arg = None \<longrightarrow>
       (\<exists>n. \<not> taken ws except (candidate L r n) \<and> (\<forall>m<n. taken ws except (candidate L r m))
      \<and> out = (Inr (candidate L r n), rng_after L r (Suc n)))",
      OF _ assms], goal_cases)
    case (1 gov L ws arg except r out)
    let ?s = "fst (generateString L SERIAL_NUMBER_LENGTH r)"
    let ?r1 = "snd (generateString L SERIAL_NUMBER_LENGTH r)"
    show ?case
    proof
      assume a: "arg = None"
      show "\<exists>n. \<not> taken ws except (candidate L r n) \<and> (\<forall>m<n. taken ws except (candidate L r m))
        \<and> out = (Inr (candidate L r n), rng_after L r (Suc n))"
      proof (cases "taken ws except ?s")
        case False
        then have "find (serial_where ?s except) ws = None"
          by (simp add: find_None_taken)
        with 1(2) a have "out = (Inr ?s, ?r1)"
          by (simp add: split_beta)
        with False show ?thesis
          by (intro exI [of _ 0]) (simp add: candidate_def)
      next
        case True
        then obtain w where "find (serial_where ?s except) ws = Some w"
          by (cases "find (serial_where ?s except) ws") (simp_all add: find_None_taken)
        with 1(2) a have "gov L ws None except ?r1 = Some out"
          by (simp add: split_beta truthy_def)
        from 1(1) [OF this] have "\<exists>n. \<not> taken ws except (candidate L ?r1 n) \<and>
          (\<forall>m<n. taken ws except (candidate L ?r1 m)) \<and>
          out = (Inr (candidate L ?r1 n), rng_after L ?r1 (Suc n))"
          by simp
        then obtain n where n: "\<not> taken ws except (candidate L ?r1 n)"
          "\<forall>m<n. taken ws except (candidate L ?r1 m)"
          "out = (Inr (candidate L ?r1 n), rng_after L ?r1 (Suc n))"
          by blast
        have "\<forall>m<Suc n. taken ws except (candidate L r m)"
        proof (intro allI impI)
          fix m assume "m < Suc n"
          then show "taken ws except (candidate L r m)"
            using True n(2) by (cases m) (auto simp: candidate_Suc candidate_0)
        qed
        with n show ?thesis
          by (intro exI [of _ "Suc n"]) (simp add: candidate_Suc)
      qed
    qed
  qed
  then show ?thesis by simp
qed

lemma find_Some_where: "find P xs = Some x \<Longrightarrow> P x \<and> x \<in> set xs"
  by (auto simp: find_Some_iff)

lemma find_exists: "x \<in> set xs \<Longrightarrow> P x \<Longrightarrow> \<exists>y. find P xs = Some y"
  by (cases "find P xs") (auto simp: find_None_iff)





lemma serials_unique_iff:
  "serials_unique ws =
     (\<forall>i<length ws. \<forall>j<length ws. i \<noteq> j \<longrightarrow>
        \<not> insensitive_equals (serialNumber (ws ! i)) (serialNumber (ws ! j)))"
  by (auto simp: serials_unique_def distinct_conv_nth serial_key_def insensitive_equals_def)













lemma demo_lib_fields:
  "validateWeapon demo_lib (WeaponBody w) = Inr w"
  "validateNameChange demo_lib (NameChangeBody n) = Inr n"
  "shouldCheckCitizenUserId demo_lib c u = True"
  "canManageInvariant demo_lib own u = (rank u = ''OWNER'' \<or> own = Some (user_id u))"
  "isFeatureEnabled demo_lib c = c"
  "generateString demo_lib k r = (replicate k (case r of [] \<Rightarrow> CHR ''Z'' | c # cs \<Rightarrow> c), tl r)"
  "cuid demo_lib r = (''id-'' @ take 1 r, tl r)"
  "defaultStatus demo_lib = PENDING"
  by (simp_all add: demo_lib_def)








lemma pending_append:
  "one_pending_per_citizen (rs @ [q]) =
     (one_pending_per_citizen rs \<and>
      (request_status q = PENDING \<longrightarrow>
         (\<forall>p\<in>set rs. request_status p = PENDING \<longrightarrow> request_citizenId p \<noteq> request_citizenId q)))"
  by (auto simp: one_pending_per_citizen_def image_iff)

lemma pending_user_append:
  "one_pending_per_citizen_and_user (rs @ [q]) =
     (one_pending_per_citizen_and_user rs \<and>
      (request_status q = PENDING \<longrightarrow>
         (\<forall>p\<in>set rs. request_status p = PENDING \<longrightarrow>
            \<not> (request_citizenId p = request_citizenId q \<and> request_userId p = request_userId q))))"
  by (simp add: one_pending_per_citizen_and_user_def image_iff) metis

section \<open>Properties of the serial number allocator\<close>

text \<open>
  Claim C3. Called without a serial number, \<open>generateOrValidateSerialNumber\<close> asks
  \<open>generateString\<close> for a string of length \<open>SERIAL_NUMBER_LENGTH\<close>, which is 10, looks it
  up among the weapons insensitively, and calls itself with fresh randomness while the
  string is taken. It returns exactly when some candidate is free, and then it returns
  the first free candidate: a string no existing weapon carries (none but the weapon
  handed in, when one is; \<open>registerWeapon\<close>, the only caller without a serial number,
  hands in none). A generator that honours the requested length gives it 10 characters.
\<close>

theorem generated_serial_number:
  "(generateOrValidateSerialNumber L ws None except r = Some (res, r')) =
     (\<exists>n. (\<forall>m<n. taken ws except (candidate L r m))
        \<and> (\<forall>w\<in>set ws. except \<noteq> Some (weapon_id w) \<longrightarrow>
               \<not> insensitive_equals (serialNumber w) (candidate L r n))
        \<and> candidate L r n = fst (generateString L 10 (rng_after L r n))
        \<and> ((\<forall>k s. length (fst (generateString L k s)) = k) \<longrightarrow> length (candidate L r n) = 10)
        \<and> res = Inr (candidate L r n) \<and> r' = rng_after L r (Suc n))"
proof -
  have free: "(\<forall>w\<in>set ws. except \<noteq> Some (weapon_id w) \<longrightarrow> \<not> insensitive_equals (serialNumber w) s)
      = (\<not> taken ws except s)" for s
    by (cases except) (auto simp: taken_def list_ex_iff serial_where_def)
  have len: "candidate L r n = fst (generateString L 10 (rng_after L r n))
      \<and> ((\<forall>k s. length (fst (generateString L k s)) = k) \<longrightarrow> length (candidate L r n) = 10)" for n
    by (simp add: candidate_def SERIAL_NUMBER_LENGTH_def)
  show ?thesis
  proof
    assume "generateOrValidateSerialNumber L ws None except r = Some (res, r')"
    from gov_generated_first [OF this] obtain n where
      "\<not> taken ws except (candidate L r n)" "\<forall>m<n. taken ws except (candidate L r m)"
      "(res, r') = (Inr (candidate L r n), rng_after L r (Suc n))"
      by blast
    with len [of n] show "\<exists>n. (\<forall>m<n. taken ws except (candidate L r m))
        \<and> (\<forall>w\<in>set ws. except \<noteq> Some (weapon_id w) \<longrightarrow>
               \<not> insensitive_equals (serialNumber w) (candidate L r n))
        \<and> candidate L r n = fst (generateString L 10 (rng_after L r n))
        \<and> ((\<forall>k s. length (fst (generateString L k s)) = k) \<longrightarrow> length (candidate L r n) = 10)
        \<and> res = Inr (candidate L r n) \<and> r' = rng_after L r (Suc n)"
      unfolding free by (intro exI [of _ n]) simp
  next
    assume "\<exists>n. (\<forall>m<n. taken ws except (candidate L r m))
        \<and> (\<forall>w\<in>set ws. except \<noteq> Some (weapon_id w) \<longrightarrow>
               \<not> insensitive_equals (serialNumber w) (candidate L r n))
        \<and> candidate L r n = fst (generateString L 10 (rng_after L r n))
        \<and> ((\<forall>k s. length (fst (generateString L k s)) = k) \<longrightarrow> length (candidate L r n) = 10)
        \<and> res = Inr (candidate L r n) \<and> r' = rng_after L r (Suc n)"
    then obtain n where n: "\<forall>m<n. taken ws except (candidate L r m)"
      "\<not> taken ws except (candidate L r n)"
      "res = Inr (candidate L r n)" "r' = rng_after L r (Suc n)"
      unfolding free by blast
    from gov_generated_returns [OF n(2) n(1)] n(3,4)
    show "generateOrValidateSerialNumber L ws None except r = Some (res, r')"
      by simp
  qed
qed

theorem generated_serial_number_witness:
  "generateOrValidateSerialNumber demo_lib [pistol, rifle] None None ''AB''
     = Some (Inr ''BBBBBBBBBB'', [])
   \<and> taken [pistol, rifle] None ''AAAAAAAAAA''
   \<and> length ''BBBBBBBBBB'' = 10"
proof -
  have c0: "candidate demo_lib ''AB'' 0 = ''AAAAAAAAAA''"
    by (simp add: candidate_def demo_lib_def SERIAL_NUMBER_LENGTH_def eval_nat_numeral)
  have c1: "candidate demo_lib ''AB'' (Suc 0) = ''BBBBBBBBBB''"
    by (simp add: candidate_def demo_lib_def SERIAL_NUMBER_LENGTH_def eval_nat_numeral)
  have r2: "rng_after demo_lib ''AB'' (Suc (Suc 0)) = []"
    by (simp add: demo_lib_def)
  have t0: "taken [pistol, rifle] None ''AAAAAAAAAA''"
    by (simp add: taken_def serial_where_def insensitive_equals_def to_lower_def pistol_def)
  have f1: "\<forall>w\<in>set [pistol, rifle]. None \<noteq> Some (weapon_id w) \<longrightarrow>
       \<not> insensitive_equals (serialNumber w) ''BBBBBBBBBB''"
    by (simp add: insensitive_equals_def to_lower_def pistol_def rifle_def)
  have g: "fst (generateString demo_lib 10 (rng_after demo_lib ''AB'' (Suc 0))) = ''BBBBBBBBBB''"
    by (simp add: demo_lib_def eval_nat_numeral)
  have "generateOrValidateSerialNumber demo_lib [pistol, rifle] None None ''AB''
     = Some (Inr ''BBBBBBBBBB'', [])"
    apply (rule generated_serial_number [THEN iffD2])
    apply (rule exI [of _ "Suc 0"])
    using c0 c1 r2 t0 f1 g
    apply simp
    done
  with t0 show ?thesis by simp
qed






section \<open>Properties of the weapon handlers\<close>





section \<open>Properties of the name-change requests\<close>

text \<open>
  Claim C9. When the new full name (\<open>newName\<close>, a space, \<open>newSurname\<close>) equals the
  full name of the citizen the handler has found for the user, \<open>requestNameChange\<close>
  throws \<open>ExtendedBadRequest\<close> with field \<open>citizenId\<close> and message
  \<open>nameChangeRequestNotNew\<close>, and the database is as it was: no request is created.
\<close>

theorem same_name_refused:
  assumes "validateNameChange L body = Inr data"
    and "find (\<lambda>c. citizen_id c = nc_citizenId data \<and> citizen_userId c = Some (user_id u))
           (citizens d) = Some c"
    and "fullname (name c) (surname c) = fullname (nc_newName data) (nc_newSurname data)"
  shows "requestNameChange L body u d r = (Inl not_new, d, r)"
  using assms by (simp add: requestNameChange_def not_new_def)

theorem same_name_refused_witness:
  "requestNameChange demo_lib (rename ''John'' ''Doe'') owner_user demo_db ''xyz''
     = (Inl not_new, demo_db, ''xyz'')
   \<and> nameChangeRequests demo_db = []"
proof -
  have v: "validateNameChange demo_lib (rename ''John'' ''Doe'')
      = Inr \<lparr>nc_citizenId = ''c1'', nc_newName = ''John'', nc_newSurname = ''Doe''\<rparr>"
    by (simp add: rename_def demo_lib_fields)
  have c: "find (\<lambda>c. citizen_id c = nc_citizenId \<lparr>nc_citizenId = ''c1'', nc_newName = ''John'', nc_newSurname = ''Doe''\<rparr>
              \<and> citizen_userId c = Some (user_id owner_user)) (citizens demo_db) = Some john"
    by (simp add: demo_db_def john_def owner_user_def)
  have n: "fullname (name john) (surname john)
      = fullname (nc_newName \<lparr>nc_citizenId = ''c1'', nc_newName = ''John'', nc_newSurname = ''Doe''\<rparr>)
          (nc_newSurname \<lparr>nc_citizenId = ''c1'', nc_newName = ''John'', nc_newSurname = ''Doe''\<rparr>)"
    by (simp add: john_def)
  from same_name_refused [OF v c n, of "''xyz''"] show ?thesis
    by (simp add: demo_db_def)
qed

text \<open>
  Claim C7, as amended. Take a database with at most one pending request per citizen,
  and a call that has passed the checks before the query: the citizen is found for the
  user and the new full name differs. If a pending request for the citizen made under
  the caller's user id exists, the call throws \<open>ExtendedBadRequest\<close> with field
  \<open>citizenId\<close> and message \<open>alreadyPendingNameChange\<close> and changes nothing; otherwise it
  creates exactly one request, for that citizen and user, with the column default as
  its status. The invariant per citizen is kept when every pending request of the
  citizen carries the caller's user id; the invariant per citizen and user is kept
  always.
\<close>

theorem pending_name_change_per_user:
  assumes v: "validateNameChange L body = Inr data"
    and c: "find (\<lambda>c. citizen_id c = nc_citizenId data \<and> citizen_userId c = Some (user_id u))
           (citizens d) = Some c"
    and n: "fullname (name c) (surname c) \<noteq> fullname (nc_newName data) (nc_newSurname data)"
    and i: "one_pending_per_citizen (nameChangeRequests d)"
  shows "((\<exists>q\<in>set (nameChangeRequests d). pending_where (nc_citizenId data) (user_id u) q) \<longrightarrow>
            requestNameChange L body u d r = (Inl already_pending, d, r))
       \<and> (\<not> (\<exists>q\<in>set (nameChangeRequests d). pending_where (nc_citizenId data) (user_id u) q) \<longrightarrow>
            (\<exists>q r'. requestNameChange L body u d r
                       = (Inr q, d\<lparr>nameChangeRequests := nameChangeRequests d @ [q]\<rparr>, r')
                 \<and> request_citizenId q = nc_citizenId data
                 \<and> request_userId q = Some (user_id u)
                 \<and> request_status q = defaultStatus L
                 \<and> newName q = nc_newName data \<and> newSurname q = nc_newSurname data))
       \<and> ((\<forall>q\<in>set (nameChangeRequests d).
              request_citizenId q = nc_citizenId data \<and> request_status q = PENDING \<longrightarrow>
              request_userId q = Some (user_id u)) \<longrightarrow>
            one_pending_per_citizen (nameChangeRequests (fst (snd (requestNameChange L body u d r)))))
       \<and> (one_pending_per_citizen_and_user (nameChangeRequests d) \<longrightarrow>
            one_pending_per_citizen_and_user
              (nameChangeRequests (fst (snd (requestNameChange L body u d r)))))"
proof -
  let ?P = "\<exists>q\<in>set (nameChangeRequests d). pending_where (nc_citizenId data) (user_id u) q"
  show ?thesis
  proof (cases ?P)
    case True
    then obtain q where "find (pending_where (nc_citizenId data) (user_id u)) (nameChangeRequests d) = Some q"
      by (auto dest: find_exists)
    with v c n have e: "requestNameChange L body u d r = (Inl already_pending, d, r)"
      by (simp add: requestNameChange_def already_pending_def)
    with True i show ?thesis by simp
  next
    case False
    then have f: "find (pending_where (nc_citizenId data) (user_id u)) (nameChangeRequests d) = None"
      by (simp add: find_None_iff)
    let ?q = "\<lparr>request_id = fst (cuid L r),
               request_citizenId = nc_citizenId data,
               request_userId = Some (user_id u),
               newName = nc_newName data,
               newSurname = nc_newSurname data,
               request_status = defaultStatus L,
               request_createdAt = now d\<rparr>"
    from v c n f have e: "requestNameChange L body u d r
        = (Inr ?q, d\<lparr>nameChangeRequests := nameChangeRequests d @ [?q]\<rparr>, snd (cuid L r))"
      by (simp add: requestNameChange_def split_beta Let_def)
    have a: "(\<forall>q\<in>set (nameChangeRequests d).
              request_citizenId q = nc_citizenId data \<and> request_status q = PENDING \<longrightarrow>
              request_userId q = Some (user_id u)) \<longrightarrow>
            one_pending_per_citizen (nameChangeRequests d @ [?q])"
      using False i by (auto simp: pending_append pending_where_def)
    have b: "one_pending_per_citizen_and_user (nameChangeRequests d) \<longrightarrow>
            one_pending_per_citizen_and_user (nameChangeRequests d @ [?q])"
      using False by (auto simp: pending_user_append pending_where_def)
    from False e a b show ?thesis
      by simp
  qed
qed

theorem pending_name_change_per_user_witness:
  "requestNameChange demo_lib (rename ''Jim'' ''Doe'') owner_user (db_with_request (Some ''u1'')) ''xyz''
     = (Inl already_pending, db_with_request (Some ''u1''), ''xyz'')
   \<and> (\<exists>q r'. requestNameChange demo_lib (rename ''Jim'' ''Doe'') owner_user demo_db ''xyz''
          = (Inr q, demo_db\<lparr>nameChangeRequests := [q]\<rparr>, r') \<and> request_status q = PENDING)
   \<and> one_pending_per_citizen (nameChangeRequests (fst (snd
        (requestNameChange demo_lib (rename ''Jim'' ''Doe'') owner_user demo_db ''xyz''))))"
proof -
  let ?data = "\<lparr>nc_citizenId = ''c1'', nc_newName = ''Jim'', nc_newSurname = ''Doe''\<rparr>"
  have v: "validateNameChange demo_lib (rename ''Jim'' ''Doe'') = Inr ?data"
    by (simp add: rename_def demo_lib_fields)
  have c: "find (\<lambda>c. citizen_id c = nc_citizenId ?data
              \<and> citizen_userId c = Some (user_id owner_user)) (citizens (db_with_request uid)) = Some john"
       "find (\<lambda>c. citizen_id c = nc_citizenId ?data
              \<and> citizen_userId c = Some (user_id owner_user)) (citizens demo_db) = Some john" for uid
    by (simp_all add: db_with_request_def demo_db_def john_def owner_user_def)
  have n: "fullname (name john) (surname john)
      \<noteq> fullname (nc_newName ?data) (nc_newSurname ?data)"
    by (simp add: john_def fullname_def)
  have i: "one_pending_per_citizen (nameChangeRequests (db_with_request (Some ''u1'')))"
      "one_pending_per_citizen (nameChangeRequests demo_db)"
    by (simp_all add: one_pending_per_citizen_def db_with_request_def demo_db_def)
  have p: "\<exists>q\<in>set (nameChangeRequests (db_with_request (Some ''u1''))).
      pending_where (nc_citizenId ?data) (user_id owner_user) q"
    by (simp add: db_with_request_def demo_db_def earlier_request_def pending_where_def owner_user_def)
  have e: "nameChangeRequests demo_db = []"
    by (simp add: demo_db_def)
  from pending_name_change_per_user [where r = "''xyz''", OF v c(1) [of "Some ''u1''"] n i(1)] p
  have a: "requestNameChange demo_lib (rename ''Jim'' ''Doe'') owner_user (db_with_request (Some ''u1'')) ''xyz''
     = (Inl already_pending, db_with_request (Some ''u1''), ''xyz'')"
    by blast
  from pending_name_change_per_user [where r = "''xyz''", OF v c(2) n i(2)] e
  have b: "(\<exists>q r'. requestNameChange demo_lib (rename ''Jim'' ''Doe'') owner_user demo_db ''xyz''
          = (Inr q, demo_db\<lparr>nameChangeRequests := [q]\<rparr>, r') \<and> request_status q = PENDING)
     \<and> one_pending_per_citizen (nameChangeRequests (fst (snd
        (requestNameChange demo_lib (rename ''Jim'' ''Doe'') owner_user demo_db ''xyz''))))"
    by (simp add: demo_lib_fields) blast
  from a b show ?thesis by blast
qed

text \<open>
  The claim as it was stated fails when the pending request of the citizen carries
  another user id: the query asks for the caller's user id as well, finds nothing, and
  a second pending request for the same citizen is created.
\<close>

theorem second_pending_name_change:
  "one_pending_per_citizen (nameChangeRequests (db_with_request (Some ''u0'')))
   \<and> earlier_request (Some ''u0'') \<in> set (nameChangeRequests (db_with_request (Some ''u0'')))
   \<and> request_citizenId (earlier_request (Some ''u0'')) = ''c1''
   \<and> request_status (earlier_request (Some ''u0'')) = PENDING
   \<and> requestNameChange demo_lib (rename ''Jim'' ''Doe'') owner_user (db_with_request (Some ''u0'')) ''xyz''
       = (Inr \<lparr>request_id = ''id-x'', request_citizenId = ''c1'', request_userId = Some ''u1'',
               newName = ''Jim'', newSurname = ''Doe'', request_status = PENDING,
               request_createdAt = 100\<rparr>,
          demo_db\<lparr>nameChangeRequests :=
            [earlier_request (Some ''u0''),
             \<lparr>request_id = ''id-x'', request_citizenId = ''c1'', request_userId = Some ''u1'',
               newName = ''Jim'', newSurname = ''Doe'', request_status = PENDING,
               request_createdAt = 100\<rparr>]\<rparr>,
          ''yz'')
   \<and> \<not> one_pending_per_citizen (nameChangeRequests (fst (snd
        (requestNameChange demo_lib (rename ''Jim'' ''Doe'') owner_user (db_with_request (Some ''u0'')) ''xyz''))))"
  by (simp add: requestNameChange_def demo_lib_fields rename_def db_with_request_def demo_db_def
        john_def owner_user_def fullname_def pending_where_def earlier_request_def
        one_pending_per_citizen_def Let_def)

section \<open>Properties of the active-officer resolution\<close>




text \<open>
  Claim C5. An officer record that \<open>getActiveOfficer\<close> returns belongs to the requesting
  user and passed the filters of the solo-officer query: the request is not a dispatch
  request, the record has a status, the status does not say \<open>SET_OFF_DUTY\<close>, and when
  \<open>getInactivityFilter\<close> gives a cutoff, the record's \<open>lastStatusChangeTimestamp\<close> is
  not at or before it.
\<close>

theorem solo_officer_filtered:
  assumes "fst (getActiveOfficer A d headers u ctx) = Inr (Some (Officer x))"
  shows "map_option header_toString (headers ''is-from-dispatch'') \<noteq> Some ''true''
       \<and> x \<in> set (officer_rows d)
       \<and> officer_userId x = Some (user_id u)
       \<and> officer_status x \<noteq> None
       \<and> (\<forall>s. officer_status x = Some s \<longrightarrow> shouldDo s \<noteq> ''SET_OFF_DUTY'')
       \<and> (\<forall>cutoff t. getInactivityFilter A (cad_findFirst d) = Some cutoff
             \<longrightarrow> lastStatusChangeTimestamp x = Some t \<longrightarrow> cutoff < t)"
proof -
  let ?flt = "officer_filters (getInactivityFilter A (cad_findFirst d))"
  from assms have nd: "map_option header_toString (headers ''is-from-dispatch'') \<noteq> Some ''true''"
    by (auto simp: getActiveOfficer_def split: if_splits)
  from assms nd have "find (officer_where u ?flt) (officer_rows d) = Some x"
    by (auto simp: getActiveOfficer_def Let_def split: if_splits option.splits)
  then have w: "officer_where u ?flt x" and m: "x \<in> set (officer_rows d)"
    by (auto dest: find_Some_where)
  from w have "officer_userId x = Some (user_id u)" "\<not> off_duty (officer_status x)"
     "officer_status x \<noteq> None"
    by (auto simp: officer_where_def officer_filters_def)
  moreover from w have "\<forall>cutoff t. getInactivityFilter A (cad_findFirst d) = Some cutoff
             \<longrightarrow> lastStatusChangeTimestamp x = Some t \<longrightarrow> cutoff < t"
    by (auto simp: officer_where_def officer_filters_def)
  ultimately show ?thesis using nd m by (auto simp: off_duty_def)
qed

theorem solo_officer_filtered_witness:
  "fst (getActiveOfficer demo_auth solo_units no_headers leo_user {}) = Inr (Some (Officer officer_a))
   \<and> officer_userId officer_a = Some (user_id leo_user)
   \<and> officer_status officer_a \<noteq> None
   \<and> getInactivityFilter demo_auth (cad_findFirst solo_units) = Some 100
   \<and> lastStatusChangeTimestamp officer_a = Some 500"
proof -
  have r: "fst (getActiveOfficer demo_auth solo_units no_headers leo_user {}) = Inr (Some (Officer officer_a))"
    by (simp add: no_headers_def demo_auth_def leo_user_def solo_units_def combinedUnit_where_def
          cad_findFirst_def officer_filters_def officer_where_def getActiveOfficer_def
          off_duty_def on_duty_def officer_a_def)
  from solo_officer_filtered [OF r] show ?thesis using r
    by (simp add: demo_auth_def solo_units_def cad_findFirst_def officer_a_def)
qed

text \<open>
  Claim C6. With the header \<open>is-from-dispatch\<close> equal to \<open>true\<close>, a user with the
  dispatch permission gets \<open>null\<close> and no query is sent, whatever the database holds,
  and a user without it gets \<open>Unauthorized\<close>. Without that header (absent, or of any
  other value), a user without the default LEO permissions gets \<open>Forbidden\<close>.
\<close>

theorem getActiveOfficer_gate:
  "(map_option header_toString (headers ''is-from-dispatch'') = Some ''true'' \<longrightarrow>
      (hasPermission A u [Permissions_Dispatch A] isDispatch \<longrightarrow>
         getActiveOfficer A d headers u ctx = (Inr None, ctx, []))
    \<and> (\<not> hasPermission A u [Permissions_Dispatch A] isDispatch \<longrightarrow>
         getActiveOfficer A d headers u ctx =
           (Inl (Unauthorized ''Must be dispatch to use this header.''), ctx, [])))
   \<and> (map_option header_toString (headers ''is-from-dispatch'') \<noteq> Some ''true'' \<longrightarrow>
        \<not> hasPermission A u (defaultLeoPermissions A) isLeo \<longrightarrow>
        getActiveOfficer A d headers u ctx = (Inl (Forbidden ''Invalid Permissions''), ctx, []))"
  by (auto simp: getActiveOfficer_def)

theorem getActiveOfficer_gate_witness:
  "getActiveOfficer demo_auth demo_units from_dispatch dispatch_user {''activeOfficer''}
     = (Inr None, {''activeOfficer''}, [])
   \<and> getActiveOfficer demo_auth demo_units from_dispatch plain_user {''activeOfficer''}
     = (Inl (Unauthorized ''Must be dispatch to use this header.''), {''activeOfficer''}, [])
   \<and> getActiveOfficer demo_auth demo_units no_headers plain_user {''activeOfficer''}
     = (Inl (Forbidden ''Invalid Permissions''), {''activeOfficer''}, [])"
  using getActiveOfficer_gate [of from_dispatch demo_auth dispatch_user demo_units "{''activeOfficer''}"]
        getActiveOfficer_gate [of from_dispatch demo_auth plain_user demo_units "{''activeOfficer''}"]
        getActiveOfficer_gate [of no_headers demo_auth plain_user demo_units "{''activeOfficer''}"]
  by (simp add: from_dispatch_def no_headers_def demo_auth_def dispatch_user_def plain_user_def)

end
